theory Spec2Isabelle
  imports Complex_Main "HOL-Library.Word" "HOL-Library.AList" "HOL-Library.Sublist"
begin

unbundle bit_operations_syntax

section \<open>The DoS detector of \<^verbatim>\<open>DOS tester/firewall.py\<close>\<close>

text \<open>
  A shallow embedding of class \<^verbatim>\<open>DoSDetector\<close>. One call of a method is one HOL
  function from the detector's state to its new state. Conventions:
  \<^item> a Python \<^verbatim>\<open>dict\<close> is an association list in insertion order with one entry per
    key; \<^verbatim>\<open>d[k] = v\<close> is \<open>AList.update\<close>, \<^verbatim>\<open>d.pop(k, None)\<close> and \<^verbatim>\<open>del d[k]\<close> (on a key
    that is present) are \<open>AList.delete\<close>, \<^verbatim>\<open>k in d\<close> is \<open>map_of d k \<noteq> None\<close>;
  \<^item> reading \<^verbatim>\<open>d[k]\<close> from a \<^verbatim>\<open>defaultdict\<close> inserts the default under a missing key,
    so a read returns the value together with the dictionary;
  \<^item> \<^verbatim>\<open>time.time()\<close> is a clock that the environment supplies: the k-th reading made
    during one call is \<open>time_time e k\<close>. Timestamps are real numbers; the rounding of
    floating-point subtraction is outside the model;
  \<^item> the \<^verbatim>\<open>netsh\<close> subprocess and the HTTP POST are effects: each one is appended to
    the field \<open>effects\<close>, and the environment supplies the outcome of each command;
  \<^item> Python's \<^verbatim>\<open>int\<close> is \<open>int\<close>, and \<^verbatim>\<open>//\<close> is \<open>div\<close> (both round towards minus infinity).
\<close>

subsection \<open>Data\<close>

type_synonym ip = string

type_synonym ('k, 'v) dict = "('k \<times> 'v) list"

text \<open>The layers of a captured packet that the detector reads. \<open>raw_load\<close> is
  \<^verbatim>\<open>str(packet[Raw].load)\<close> when \<^verbatim>\<open>Raw in packet\<close>.\<close>

record tcp_layer =
  flags :: "9 word"
  dport :: "16 word"

record packet =
  ip_src :: ip
  tcp :: "tcp_layer option"
  raw_load :: "string option"
  has_icmp :: bool

record alert =
  timestamp :: real
  src_ip :: ip
  packet_count :: int
  attack_type :: string

datatype effect =
    NetshAddRule ip
  | NetshDeleteRule ip
  | ApiPost ip string int

text \<open>What \<^verbatim>\<open>subprocess.Popen(...).communicate()\<close> did: the return code of the
  command, or an exception.\<close>

datatype cmd_result = Returncode int | Raised

datatype py_error = RuntimeError

record env =
  time_time :: "nat \<Rightarrow> real"
  block_cmd :: "ip \<Rightarrow> cmd_result"
  unblock_cmd :: "ip \<Rightarrow> cmd_result"

text \<open>The fields of \<^verbatim>\<open>DoSDetector.__init__\<close> that the detection engine uses.
  \<open>blocked_ips\<close> is a Python \<^verbatim>\<open>set\<close>: a list without duplicates whose order stands for
  the iteration order of the set, which Python leaves open.\<close>

record detector =
  threshold :: int
  time_window :: int
  block_ips :: bool
  api_url :: "string option"
  packet_counts :: "(ip, int) dict"
  packet_timestamps :: "(ip, real list) dict"
  syn_flood_tracking :: "(ip, int) dict"
  http_flood_tracking :: "(ip, int) dict"
  icmp_flood_tracking :: "(ip, int) dict"
  blocked_ips :: "ip list"
  running :: bool
  alert_history :: "alert list"
  effects :: "effect list"

subsection \<open>Dictionaries and the bounded deque\<close>

text \<open>\<^verbatim>\<open>d[k]\<close> on a \<^verbatim>\<open>defaultdict\<close> whose factory returns \<open>dflt\<close>.\<close>

definition dd_getitem :: "'v \<Rightarrow> ('k, 'v) dict \<Rightarrow> 'k \<Rightarrow> 'v \<times> ('k, 'v) dict" where
  "dd_getitem dflt d k =
     (case map_of d k of
        Some v \<Rightarrow> (v, d)
      | None \<Rightarrow> (dflt, AList.update k dflt d))"

text \<open>\<^verbatim>\<open>d.get(k, dflt)\<close>: a read that inserts nothing.\<close>

definition dict_get :: "('k, 'v) dict \<Rightarrow> 'k \<Rightarrow> 'v \<Rightarrow> 'v" where
  "dict_get d k dflt = (case map_of d k of Some v \<Rightarrow> v | None \<Rightarrow> dflt)"

text \<open>\<^verbatim>\<open>d[k] += 1\<close> on a \<^verbatim>\<open>defaultdict(int)\<close>.\<close>

definition dd_incr :: "('k, int) dict \<Rightarrow> 'k \<Rightarrow> ('k, int) dict" where
  "dd_incr d k = (let (v, d') = dd_getitem 0 d k in AList.update k (v + 1) d')"

text \<open>\<^verbatim>\<open>deque(maxlen=n).append(x)\<close>: the item is added on the right, and when the
  deque is then longer than \<open>n\<close> the leftmost item is dropped.\<close>

definition deque_append :: "nat \<Rightarrow> 'a list \<Rightarrow> 'a \<Rightarrow> 'a list" where
  "deque_append maxlen dq x =
     (let dq' = dq @ [x] in if length dq' > maxlen then tl dq' else dq')"

text \<open>\<^verbatim>\<open>max(iterable, key=...)\<close>: an item replaces the best one so far only when its
  key is strictly greater, so the first of several maximal items is returned.\<close>

fun py_max_by :: "('a \<Rightarrow> int) \<Rightarrow> 'a \<Rightarrow> 'a list \<Rightarrow> 'a" where
  "py_max_by key best [] = best"
| "py_max_by key best (x # xs) = py_max_by key (if key x > key best then x else best) xs"

text \<open>\<^verbatim>\<open>needle in haystack\<close> on strings.\<close>

fun str_contains :: "string \<Rightarrow> string \<Rightarrow> bool" where
  "str_contains needle [] = (needle = [])"
| "str_contains needle (c # cs) = (prefix needle (c # cs) \<or> str_contains needle cs)"

subsection \<open>\<^verbatim>\<open>_check_attack_signatures\<close>\<close>

definition syn_signature :: "packet \<Rightarrow> bool" where
  "syn_signature p =
     (case tcp p of
        None \<Rightarrow> False
      | Some t \<Rightarrow> flags t AND 0x02 \<noteq> 0 \<and> \<not> (flags t AND 0x10 \<noteq> 0))"

definition http_signature :: "packet \<Rightarrow> bool" where
  "http_signature p =
     (case tcp p of
        None \<Rightarrow> False
      | Some t \<Rightarrow>
          (dport t = 80 \<or> dport t = 443) \<and>
          (case raw_load p of
             None \<Rightarrow> False
           | Some payload \<Rightarrow>
               str_contains ''GET'' payload \<or> str_contains ''POST'' payload \<or>
               str_contains ''HTTP'' payload))"

definition icmp_signature :: "packet \<Rightarrow> bool" where
  "icmp_signature p = has_icmp p"

definition check_attack_signatures :: "detector \<Rightarrow> packet \<Rightarrow> ip \<Rightarrow> detector" where
  "check_attack_signatures s p ip =
     (let s1 = (if syn_signature p
                then s\<lparr>syn_flood_tracking := dd_incr (syn_flood_tracking s) ip\<rparr> else s);
          s2 = (if http_signature p
                then s1\<lparr>http_flood_tracking := dd_incr (http_flood_tracking s1) ip\<rparr> else s1)
      in (if icmp_signature p
          then s2\<lparr>icmp_flood_tracking := dd_incr (icmp_flood_tracking s2) ip\<rparr> else s2))"

subsection \<open>\<^verbatim>\<open>_clean_old_timestamps\<close>\<close>

definition clean_old_timestamps :: "detector \<Rightarrow> ip \<Rightarrow> real \<Rightarrow> detector" where
  "clean_old_timestamps s ip current_time =
     (case map_of (packet_timestamps s) ip of
        None \<Rightarrow> s
      | Some w \<Rightarrow>
          s\<lparr>packet_timestamps :=
               AList.update ip [ts \<leftarrow> w. current_time - ts \<le> real_of_int (time_window s)]
                 (packet_timestamps s)\<rparr>)"

subsection \<open>\<^verbatim>\<open>_block_ip\<close>, \<^verbatim>\<open>_unblock_ip\<close>, \<^verbatim>\<open>_report_to_api\<close>\<close>

definition block_ip :: "env \<Rightarrow> detector \<Rightarrow> ip \<Rightarrow> detector" where
  "block_ip e s ip =
     (if ip \<in> set (blocked_ips s) then s
      else
        (let s1 = s\<lparr>effects := effects s @ [NetshAddRule ip]\<rparr>
         in case block_cmd e ip of
              Raised \<Rightarrow> s1
            | Returncode rc \<Rightarrow>
                (if rc = 0 then s1\<lparr>blocked_ips := List.insert ip (blocked_ips s1)\<rparr> else s1)))"

definition unblock_ip :: "env \<Rightarrow> detector \<Rightarrow> ip \<Rightarrow> detector" where
  "unblock_ip e s ip =
     (if ip \<notin> set (blocked_ips s) then s
      else
        (let s1 = s\<lparr>effects := effects s @ [NetshDeleteRule ip]\<rparr>
         in case unblock_cmd e ip of
              Raised \<Rightarrow> s1
            | Returncode rc \<Rightarrow>
                (if rc = 0 then s1\<lparr>blocked_ips := removeAll ip (blocked_ips s1)\<rparr> else s1)))"

text \<open>The state of the detector does not depend on the answer of the API.\<close>

definition report_to_api :: "detector \<Rightarrow> ip \<Rightarrow> string \<Rightarrow> int \<Rightarrow> detector" where
  "report_to_api s ip atype cnt = s\<lparr>effects := effects s @ [ApiPost ip atype cnt]\<rparr>"

subsection \<open>\<^verbatim>\<open>_trigger_alert\<close>\<close>

text \<open>The loop over \<^verbatim>\<open>self.alert_history\<close>. The clock is read only for an alert of
  the same source (\<^verbatim>\<open>and\<close> does not evaluate its right operand otherwise); \<open>k\<close> counts
  the readings made so far. The result says whether the loop returned early, and how many
  readings were made.\<close>

fun already_alerted :: "(nat \<Rightarrow> real) \<Rightarrow> nat \<Rightarrow> int \<Rightarrow> ip \<Rightarrow> alert list \<Rightarrow> bool \<times> nat" where
  "already_alerted clk k tw ip [] = (False, k)"
| "already_alerted clk k tw ip (a # as) =
     (if src_ip a = ip
      then (if clk k - timestamp a < real_of_int (tw * 2) then (True, Suc k)
            else already_alerted clk (Suc k) tw ip as)
      else already_alerted clk k tw ip as)"

text \<open>\<^verbatim>\<open>if self.api_url:\<close> holds for a string that is not empty.\<close>

definition api_enabled :: "detector \<Rightarrow> bool" where
  "api_enabled s = (case api_url s of None \<Rightarrow> False | Some u \<Rightarrow> u \<noteq> [])"

definition trigger_alert :: "env \<Rightarrow> detector \<Rightarrow> ip \<Rightarrow> int \<Rightarrow> string \<Rightarrow> detector" where
  "trigger_alert e s ip cnt atype =
     (case already_alerted (time_time e) 0 (time_window s) ip (alert_history s) of
        (True, _) \<Rightarrow> s
      | (False, k) \<Rightarrow>
          (let a = \<lparr>timestamp = time_time e k, src_ip = ip, packet_count = cnt,
                    attack_type = atype\<rparr>;
               s1 = s\<lparr>alert_history := deque_append 100 (alert_history s) a\<rparr>;
               s2 = (if block_ips s1 then block_ip e s1 ip else s1);
               s3 = (if api_enabled s2 then report_to_api s2 ip atype cnt else s2)
           in s3\<lparr>syn_flood_tracking := AList.update ip 0 (syn_flood_tracking s3),
                 http_flood_tracking := AList.update ip 0 (http_flood_tracking s3),
                 icmp_flood_tracking := AList.update ip 0 (icmp_flood_tracking s3)\<rparr>))"

subsection \<open>\<^verbatim>\<open>_determine_attack_type\<close> and \<^verbatim>\<open>_check_thresholds\<close>\<close>

text \<open>Building \<^verbatim>\<open>attack_types\<close> reads the three counters, which inserts a zero for a
  source that has none; the new state is returned with the label.\<close>

definition determine_attack_type :: "detector \<Rightarrow> ip \<Rightarrow> string \<times> detector" where
  "determine_attack_type s ip =
     (let (syn, d1) = dd_getitem 0 (syn_flood_tracking s) ip;
          (http, d2) = dd_getitem 0 (http_flood_tracking s) ip;
          (icmp, d3) = dd_getitem 0 (icmp_flood_tracking s) ip;
          s' = s\<lparr>syn_flood_tracking := d1, http_flood_tracking := d2,
                 icmp_flood_tracking := d3\<rparr>;
          attack_types = [(''SYN flood'', syn), (''HTTP flood'', http), (''ICMP flood'', icmp)];
          max_type = py_max_by snd (hd attack_types) (tl attack_types)
      in (if snd max_type > threshold s div 5 then fst max_type else ''General DoS'', s'))"

definition check_thresholds :: "env \<Rightarrow> detector \<Rightarrow> ip \<Rightarrow> real \<Rightarrow> detector" where
  "check_thresholds e s ip current_time =
     (let s0 = clean_old_timestamps s ip current_time;
          (w, ts') = dd_getitem [] (packet_timestamps s0) ip;
          s1 = s0\<lparr>packet_timestamps := ts'\<rparr>;
          recent_packets = int (length w)
      in if recent_packets \<ge> threshold s1 then
           (let (atype, s2) = determine_attack_type s1 ip
            in trigger_alert e s2 ip recent_packets atype)
         else
           (let (syn, d1) = dd_getitem 0 (syn_flood_tracking s1) ip;
                s2 = s1\<lparr>syn_flood_tracking := d1\<rparr>
            in if syn \<ge> threshold s2 div 2 then trigger_alert e s2 ip syn ''SYN flood''
               else
                 (let (http, d2) = dd_getitem 0 (http_flood_tracking s2) ip;
                      s3 = s2\<lparr>http_flood_tracking := d2\<rparr>
                  in if http \<ge> threshold s3 div 3
                     then trigger_alert e s3 ip http ''HTTP flood''
                     else
                       (let (icmp, d3) = dd_getitem 0 (icmp_flood_tracking s3) ip;
                            s4 = s3\<lparr>icmp_flood_tracking := d3\<rparr>
                        in if icmp \<ge> threshold s4 div 4
                           then trigger_alert e s4 ip icmp ''ICMP flood''
                           else s4))))"

subsection \<open>One iteration of \<^verbatim>\<open>_process_packets\<close>\<close>

text \<open>The body of the loop for a packet taken from the queue. The global
  \<^verbatim>\<open>PROCESS_PRIVATE_IPS\<close> and the answer of \<^verbatim>\<open>_is_private_ip\<close> (library
  \<^verbatim>\<open>ipaddress\<close>) are parameters. The first reading of the clock is \<^verbatim>\<open>now\<close>; the
  readings that \<^verbatim>\<open>_trigger_alert\<close> makes come after it.\<close>

definition process_packet :: "env \<Rightarrow> bool \<Rightarrow> (ip \<Rightarrow> bool) \<Rightarrow> detector \<Rightarrow> packet \<Rightarrow> detector" where
  "process_packet e process_private_ips is_private_ip s p =
     (let src = ip_src p
      in if is_private_ip src \<and> \<not> process_private_ips then s
         else if src \<in> set (blocked_ips s) then s
         else
           (let now = time_time e 0;
                (w, ts') = dd_getitem [] (packet_timestamps s) src;
                s1 = s\<lparr>packet_timestamps := AList.update src (w @ [now]) ts'\<rparr>;
                s2 = s1\<lparr>packet_counts := dd_incr (packet_counts s1) src\<rparr>;
                s3 = check_attack_signatures s2 p src
            in check_thresholds (e\<lparr>time_time := \<lambda>k. time_time e (Suc k)\<rparr>) s3 src now))"

subsection \<open>One sweep of \<^verbatim>\<open>_maintenance_task\<close>\<close>

text \<open>The body of the \<^verbatim>\<open>for\<close> loop, for one key of the snapshot
  \<^verbatim>\<open>list(self.packet_timestamps.keys())\<close>.\<close>

definition maintenance_step :: "real \<Rightarrow> ip \<Rightarrow> detector \<Rightarrow> detector" where
  "maintenance_step current_time ip s =
     (let s0 = clean_old_timestamps s ip current_time;
          (w, ts') = dd_getitem [] (packet_timestamps s0) ip;
          s1 = s0\<lparr>packet_timestamps := ts'\<rparr>
      in if length w = 0
         then s1\<lparr>packet_timestamps := AList.delete ip (packet_timestamps s1),
                 packet_counts := AList.delete ip (packet_counts s1),
                 syn_flood_tracking := AList.delete ip (syn_flood_tracking s1),
                 http_flood_tracking := AList.delete ip (http_flood_tracking s1),
                 icmp_flood_tracking := AList.delete ip (icmp_flood_tracking s1)\<rparr>
         else s1)"

definition maintenance_sweep :: "detector \<Rightarrow> real \<Rightarrow> detector" where
  "maintenance_sweep s current_time =
     fold (maintenance_step current_time) (map fst (packet_timestamps s)) s"

subsection \<open>\<^verbatim>\<open>stop\<close>\<close>

text \<open>\<^verbatim>\<open>for ip in self.blocked_ips\<close>: the iterator of a set remembers the size the set
  had when the loop began, and each request for the next item, the one that ends the loop
  too, raises \<^verbatim>\<open>RuntimeError\<close> when the set has another size by then. \<open>used\<close> is the
  remembered size and the list holds the items not yet visited.\<close>

fun unblock_loop :: "env \<Rightarrow> nat \<Rightarrow> ip list \<Rightarrow> detector \<Rightarrow> detector \<times> py_error option" where
  "unblock_loop e used [] s =
     (s, if length (blocked_ips s) \<noteq> used then Some RuntimeError else None)"
| "unblock_loop e used (ip # rest) s =
     (if length (blocked_ips s) \<noteq> used then (s, Some RuntimeError)
      else unblock_loop e used rest (unblock_ip e s ip))"

definition stop :: "env \<Rightarrow> detector \<Rightarrow> detector \<times> py_error option" where
  "stop e s =
     (let s1 = s\<lparr>running := False\<rparr>
      in if block_ips s1 \<and> blocked_ips s1 \<noteq> []
         then unblock_loop e (length (blocked_ips s1)) (blocked_ips s1) s1
         else (s1, None))"

subsection \<open>\<^verbatim>\<open>__init__\<close> and observations\<close>

definition init :: "int \<Rightarrow> int \<Rightarrow> bool \<Rightarrow> string option \<Rightarrow> detector" where
  "init thr tw blk url =
     \<lparr>threshold = thr, time_window = tw, block_ips = blk, api_url = url,
      packet_counts = [], packet_timestamps = [], syn_flood_tracking = [],
      http_flood_tracking = [], icmp_flood_tracking = [], blocked_ips = [],
      running = True, alert_history = [], effects = []\<rparr>"

text \<open>The window and the counters of a source, read without inserting anything (as
  \<^verbatim>\<open>show_statistics\<close> reads the counters with \<^verbatim>\<open>.get(ip, 0)\<close>): the stored value, or the
  default when the source has no entry.\<close>

definition window_of :: "detector \<Rightarrow> ip \<Rightarrow> real list" where
  "window_of s ip = dict_get (packet_timestamps s) ip []"

definition syn_count :: "detector \<Rightarrow> ip \<Rightarrow> int" where
  "syn_count s ip = dict_get (syn_flood_tracking s) ip 0"

definition http_count :: "detector \<Rightarrow> ip \<Rightarrow> int" where
  "http_count s ip = dict_get (http_flood_tracking s) ip 0"

definition icmp_count :: "detector \<Rightarrow> ip \<Rightarrow> int" where
  "icmp_count s ip = dict_get (icmp_flood_tracking s) ip 0"

text \<open>From \<open>s\<close> to \<open>s'\<close> one alert has been appended to the history (of capacity 100),
  and it has this source, count and label.\<close>

definition alert_raised :: "detector \<Rightarrow> detector \<Rightarrow> ip \<Rightarrow> int \<Rightarrow> string \<Rightarrow> bool" where
  "alert_raised s s' ip cnt atype =
     (alert_history s' = deque_append 100 (alert_history s) (last (alert_history s')) \<and>
      src_ip (last (alert_history s')) = ip \<and>
      packet_count (last (alert_history s')) = cnt \<and>
      attack_type (last (alert_history s')) = atype)"

subsection \<open>Notions used to state the properties\<close>

text \<open>A source is tracked when \<^verbatim>\<open>packet_timestamps\<close> has an entry for it, and counted
  when one of the four counter dictionaries has.\<close>

definition tracked :: "detector \<Rightarrow> ip \<Rightarrow> bool" where
  "tracked s ip = (map_of (packet_timestamps s) ip \<noteq> None)"

definition counted :: "detector \<Rightarrow> ip \<Rightarrow> bool" where
  "counted s ip =
     (map_of (packet_counts s) ip \<noteq> None \<or> map_of (syn_flood_tracking s) ip \<noteq> None \<or>
      map_of (http_flood_tracking s) ip \<noteq> None \<or> map_of (icmp_flood_tracking s) ip \<noteq> None)"

text \<open>From \<open>s\<close> to \<open>s'\<close> the source \<open>ip\<close> has become tracked, and no other source has
  become tracked, untracked or counted.\<close>

definition grows_at :: "ip \<Rightarrow> detector \<Rightarrow> detector \<Rightarrow> bool" where
  "grows_at ip s s' =
     ((\<forall>ip'. tracked s' ip' \<longleftrightarrow> tracked s ip' \<or> ip' = ip) \<and>
      (\<forall>ip'. counted s' ip' \<longrightarrow> counted s ip' \<or> ip' = ip))"

text \<open>The window of a source is stale at \<open>now\<close> when pruning would leave no timestamp
  in it.\<close>

definition stale :: "detector \<Rightarrow> real \<Rightarrow> ip \<Rightarrow> bool" where
  "stale s now ip = ([ts \<leftarrow> window_of s ip. now - ts \<le> real_of_int (time_window s)] = [])"

text \<open>A sequence of calls of \<^verbatim>\<open>_trigger_alert\<close> with the same count and label, each for
  its own source and in its own environment, and the alert that such a call appends when
  the history holds no alert of that source.\<close>

definition trigger_all :: "(env \<times> ip) list \<Rightarrow> int \<Rightarrow> string \<Rightarrow> detector \<Rightarrow> detector" where
  "trigger_all ts cnt atype s = fold (\<lambda>t s. trigger_alert (fst t) s (snd t) cnt atype) ts s"

definition mk_alert :: "int \<Rightarrow> string \<Rightarrow> env \<times> ip \<Rightarrow> alert" where
  "mk_alert cnt atype t =
     \<lparr>timestamp = time_time (fst t) 0, src_ip = snd t, packet_count = cnt,
      attack_type = atype\<rparr>"

subsection \<open>The refinement of the attack type, in the words of the specification\<close>

text \<open>The maximum of the three counters is selected, SYN before HTTP before ICMP when
  counters are equal; its label is used when the maximum exceeds \<^verbatim>\<open>threshold // 5\<close>, and
  the general label otherwise.\<close>

definition spec_refined_type :: "int \<Rightarrow> int \<Rightarrow> int \<Rightarrow> int \<Rightarrow> string" where
  "spec_refined_type thr syn http icmp =
     (let m = max syn (max http icmp)
      in if m > thr div 5
         then (if syn = m then ''SYN flood''
               else if http = m then ''HTTP flood'' else ''ICMP flood'')
         else ''General DoS'')"

subsection \<open>Concrete detectors and packets\<close>

text \<open>\<^verbatim>\<open>str(b)\<close> of a bytes object whose bytes are all printable.\<close>

definition bytes_repr :: "string \<Rightarrow> string" where
  "bytes_repr body = CHR ''b'' # CHR 0x27 # body @ [CHR 0x27]"

text \<open>A source whose window holds four timestamps, seen at time 12 with a window of
  five seconds.\<close>

definition ex_prune :: detector where
  "ex_prune =
     (init 1000 5 False None)\<lparr>packet_timestamps := [(''203.0.113.9'', [1, 7, 9, 12])]\<rparr>"

text \<open>A TCP segment to port 80 with SYN set, ACK clear and the start of an HTTP request
  as payload.\<close>

definition ex_syn_http :: packet where
  "ex_syn_http =
     \<lparr>ip_src = ''203.0.113.9'', tcp = Some \<lparr>flags = 0x02, dport = 80\<rparr>,
      raw_load = Some (bytes_repr ''GET / HTTP/1.1''), has_icmp = False\<rparr>"

text \<open>An ICMP echo request.\<close>

definition ex_icmp :: packet where
  "ex_icmp = \<lparr>ip_src = ''203.0.113.9'', tcp = None, raw_load = None, has_icmp = True\<rparr>"

text \<open>A source with three equal counters above a fifth of the threshold.\<close>

definition ex_tie :: detector where
  "ex_tie =
     (init 10 10 False None)
       \<lparr>syn_flood_tracking := [(''203.0.113.9'', 4)],
        http_flood_tracking := [(''203.0.113.9'', 4)],
        icmp_flood_tracking := [(''203.0.113.9'', 4)]\<rparr>"

text \<open>An environment whose clock stands still at \<open>t\<close> and whose commands succeed.\<close>

definition ex_env :: "real \<Rightarrow> env" where
  "ex_env t =
     \<lparr>time_time = (\<lambda>_. t), block_cmd = (\<lambda>_. Returncode 0),
      unblock_cmd = (\<lambda>_. Returncode 0)\<rparr>"

text \<open>A detector with a window of ten seconds that tracks one source, with the given
  threshold, window and counters, and has raised no alert yet.\<close>

definition ex_counts :: "int \<Rightarrow> real list \<Rightarrow> int \<Rightarrow> int \<Rightarrow> int \<Rightarrow> detector" where
  "ex_counts thr w syn http icmp =
     (init thr 10 False None)
       \<lparr>packet_timestamps := [(''203.0.113.9'', w)],
        syn_flood_tracking := [(''203.0.113.9'', syn)],
        http_flood_tracking := [(''203.0.113.9'', http)],
        icmp_flood_tracking := [(''203.0.113.9'', icmp)]\<rparr>"

text \<open>A detector whose history holds one alert, raised for the tracked source at
  time 100.\<close>

definition ex_alerted :: detector where
  "ex_alerted =
     (ex_counts 10 [101, 102, 103] 5 4 3)
       \<lparr>alert_history :=
          [\<lparr>timestamp = 100, src_ip = ''203.0.113.9'', packet_count = 5,
            attack_type = ''SYN flood''\<rparr>]\<rparr>"

text \<open>A detector whose history is full: a hundred alerts of another source.\<close>

definition ex_full :: detector where
  "ex_full =
     (ex_counts 10 [101, 102, 103] 5 4 3)
       \<lparr>alert_history :=
          replicate 100 \<lparr>timestamp = 100, src_ip = ''198.51.100.7'', packet_count = 12,
            attack_type = ''General DoS''\<rparr>\<rparr>"

text \<open>Two tracked sources at time 100: the timestamps of the first are all older than
  ten seconds, the second has two recent ones.\<close>

definition ex_two :: detector where
  "ex_two =
     (init 1000 10 False None)
       \<lparr>packet_counts := [(''203.0.113.9'', 2), (''198.51.100.7'', 3)],
        packet_timestamps := [(''203.0.113.9'', [1, 2]), (''198.51.100.7'', [85, 95, 99])],
        syn_flood_tracking := [(''203.0.113.9'', 2), (''198.51.100.7'', 1)],
        http_flood_tracking := [(''198.51.100.7'', 0)],
        icmp_flood_tracking := [(''203.0.113.9'', 0)]\<rparr>"

text \<open>A detector with blocking enabled and two blocked sources.\<close>

definition ex_blocked :: detector where
  "ex_blocked =
     (init 1000 10 True None)\<lparr>blocked_ips := [''203.0.113.9'', ''198.51.100.7'']\<rparr>"

text \<open>A hundred sources, \<^verbatim>\<open>203.0.0.0\<close> to \<^verbatim>\<open>203.0.9.9\<close>, each triggering at time 105.\<close>

definition ex_sources :: "ip list" where
  "ex_sources = [''203.0.'' @ [a] @ ''.'' @ [b]. a \<leftarrow> ''0123456789'', b \<leftarrow> ''0123456789'']"

definition ex_others :: "(env \<times> ip) list" where
  "ex_others = map (\<lambda>ip. (ex_env 105, ip)) ex_sources"

section \<open>Properties\<close>

subsection \<open>Dictionaries\<close>

lemma dict_get_update:
  "dict_get (AList.update k v d) k' dflt = (if k' = k then v else dict_get d k' dflt)"
  by (simp add: dict_get_def update_conv')

lemma dict_get_delete:
  "dict_get (AList.delete k d) k' dflt = (if k' = k then dflt else dict_get d k' dflt)"
  by (simp add: dict_get_def delete_conv')

lemma fst_dd_getitem: "fst (dd_getitem dflt d k) = dict_get d k dflt"
  by (simp add: dd_getitem_def dict_get_def split: option.splits)

lemma dict_get_snd_dd_getitem:
  "dict_get (snd (dd_getitem dflt d k)) k' dflt = dict_get d k' dflt"
  by (auto simp: dd_getitem_def dict_get_def update_conv' split: option.splits)

lemma map_of_snd_dd_getitem:
  "map_of (snd (dd_getitem dflt d k)) k' =
     (if k' = k \<and> map_of d k = None then Some dflt else map_of d k')"
  by (auto simp: dd_getitem_def update_conv' split: option.splits)

lemma dict_get_dd_incr:
  "dict_get (dd_incr d k) k' 0 = dict_get d k' 0 + (if k' = k then 1 else 0)"
  by (auto simp: dd_incr_def dd_getitem_def dict_get_def update_conv' split: option.splits)

lemma init_counts:
  "syn_count (init thr tw blk url) ip = 0"
  "http_count (init thr tw blk url) ip = 0"
  "icmp_count (init thr tw blk url) ip = 0"
  by (simp_all add: init_def syn_count_def http_count_def icmp_count_def dict_get_def)

lemma count_list_filter: "count_list (filter P xs) x = (if P x then count_list xs x else 0)"
  by (induction xs) auto

subsection \<open>Pruning a window\<close>

lemma window_of_clean:
  "window_of (clean_old_timestamps s ip now) ip' =
     (if ip' = ip then [ts \<leftarrow> window_of s ip. now - ts \<le> real_of_int (time_window s)]
      else window_of s ip')"
  by (simp add: window_of_def clean_old_timestamps_def dict_get_def update_conv'
      split: option.splits)

text \<open>
  Claim C5. Pruning the window of a source at time \<open>now\<close> keeps the timestamps \<open>ts\<close>
  with \<open>now - ts \<le> W\<close> and no others: the new window is the old one filtered, so it
  is a subsequence of the old window (the original order), every timestamp with
  \<open>now - ts > W\<close> has gone and every other one occurs as often as before, and no
  timestamp older than \<open>now - W\<close> remains.
\<close>

theorem clean_old_timestamps_prunes:
  "window_of (clean_old_timestamps s ip now) ip =
     [ts \<leftarrow> window_of s ip. now - ts \<le> real_of_int (time_window s)]
   \<and> subseq (window_of (clean_old_timestamps s ip now) ip) (window_of s ip)
   \<and> (\<forall>ts. count_list (window_of (clean_old_timestamps s ip now) ip) ts =
        (if now - ts > real_of_int (time_window s) then 0
         else count_list (window_of s ip) ts))
   \<and> (\<forall>ts \<in> set (window_of (clean_old_timestamps s ip now) ip).
        \<not> ts < now - real_of_int (time_window s))"
  by (auto simp: window_of_clean count_list_filter)

theorem clean_old_timestamps_prunes_witness:
  "window_of ex_prune ''203.0.113.9'' = [1, 7, 9, 12]
   \<and> window_of (clean_old_timestamps ex_prune ''203.0.113.9'' 12) ''203.0.113.9'' = [7, 9, 12]
   \<and> (7::real) \<in> set (window_of (clean_old_timestamps ex_prune ''203.0.113.9'' 12) ''203.0.113.9'')
   \<and> \<not> (7::real) < 12 - real_of_int (time_window ex_prune)"
  using clean_old_timestamps_prunes [of ex_prune "''203.0.113.9''" 12]
  by (simp add: ex_prune_def init_def window_of_def dict_get_def clean_old_timestamps_def)

subsection \<open>Signature counters\<close>

lemma ex_syn_http_signatures: "syn_signature ex_syn_http \<and> http_signature ex_syn_http"
  by (simp add: ex_syn_http_def syn_signature_def http_signature_def bytes_repr_def)

lemma counts_after_signatures:
  "syn_count (check_attack_signatures s p ip) ip' =
     syn_count s ip' + (if ip' = ip \<and> syn_signature p then 1 else 0)"
  "http_count (check_attack_signatures s p ip) ip' =
     http_count s ip' + (if ip' = ip \<and> http_signature p then 1 else 0)"
  "icmp_count (check_attack_signatures s p ip) ip' =
     icmp_count s ip' + (if ip' = ip \<and> icmp_signature p then 1 else 0)"
  by (simp_all add: check_attack_signatures_def syn_count_def http_count_def icmp_count_def
      dict_get_dd_incr Let_def)

text \<open>
  Claim C2, as stated: no event increments two of the three counters. It fails for a TCP
  segment to port 80 that has SYN set and ACK clear and carries \<^verbatim>\<open>GET\<close> in its payload:
  the three tests of \<^verbatim>\<open>_check_attack_signatures\<close> are separate \<^verbatim>\<open>if\<close> statements, and
  this segment passes the first two, so both counters of its source go from 0 to 1.
\<close>

theorem signatures_not_exclusive:
  "syn_count (init 1000 10 False None) ''203.0.113.9'' = 0
   \<and> http_count (init 1000 10 False None) ''203.0.113.9'' = 0
   \<and> syn_count (check_attack_signatures (init 1000 10 False None) ex_syn_http ''203.0.113.9'')
       ''203.0.113.9'' = 1
   \<and> http_count (check_attack_signatures (init 1000 10 False None) ex_syn_http ''203.0.113.9'')
       ''203.0.113.9'' = 1"
  using counts_after_signatures [of "init 1000 10 False None" ex_syn_http "''203.0.113.9''"
      "''203.0.113.9''"] ex_syn_http_signatures
  by (simp add: init_counts)

text \<open>
  Claim C2, amended. Each of the three counters of the event's source goes up by one
  exactly when the event passes the test of that signature, each test on its own, and no
  counter of another source changes; so an event that passes at most one test increments
  at most one counter, and an event that passes several increments each of them.
\<close>

theorem check_attack_signatures_independent:
  "syn_count (check_attack_signatures s p ip) ip' =
     syn_count s ip' + (if ip' = ip \<and> syn_signature p then 1 else 0)
   \<and> http_count (check_attack_signatures s p ip) ip' =
     http_count s ip' + (if ip' = ip \<and> http_signature p then 1 else 0)
   \<and> icmp_count (check_attack_signatures s p ip) ip' =
     icmp_count s ip' + (if ip' = ip \<and> icmp_signature p then 1 else 0)"
  by (simp only: counts_after_signatures simp_thms)

theorem check_attack_signatures_independent_witness:
  "icmp_signature ex_icmp \<and> \<not> syn_signature ex_icmp \<and> \<not> http_signature ex_icmp
   \<and> syn_count (check_attack_signatures (init 1000 10 False None) ex_icmp ''203.0.113.9'')
       ''203.0.113.9'' = 0
   \<and> http_count (check_attack_signatures (init 1000 10 False None) ex_icmp ''203.0.113.9'')
       ''203.0.113.9'' = 0
   \<and> icmp_count (check_attack_signatures (init 1000 10 False None) ex_icmp ''203.0.113.9'')
       ''203.0.113.9'' = 1"
  using check_attack_signatures_independent [of "init 1000 10 False None" ex_icmp
      "''203.0.113.9''" "''203.0.113.9''"]
  by (simp add: init_counts ex_icmp_def syn_signature_def http_signature_def
      icmp_signature_def)

subsection \<open>Selecting the attack type\<close>

lemma determine_attack_type_label:
  "fst (determine_attack_type s ip) =
     spec_refined_type (threshold s) (syn_count s ip) (http_count s ip) (icmp_count s ip)"
  by (simp add: determine_attack_type_def dd_getitem_def syn_count_def http_count_def
      icmp_count_def dict_get_def spec_refined_type_def Let_def max_def
      split: option.splits prod.splits)

text \<open>
  Claim C4. The label that \<^verbatim>\<open>_determine_attack_type\<close> returns is the one the
  specification describes: the signature with the maximal counter, SYN before HTTP before
  ICMP when counters are equal (and the general label when that maximum does not exceed
  \<^verbatim>\<open>threshold // 5\<close>).
\<close>

theorem determine_attack_type_tie_break:
  "fst (determine_attack_type s ip) =
     spec_refined_type (threshold s) (syn_count s ip) (http_count s ip) (icmp_count s ip)"
  by (rule determine_attack_type_label)

theorem determine_attack_type_tie_break_witness:
  "syn_count ex_tie ''203.0.113.9'' = 4 \<and> http_count ex_tie ''203.0.113.9'' = 4
   \<and> icmp_count ex_tie ''203.0.113.9'' = 4
   \<and> fst (determine_attack_type ex_tie ''203.0.113.9'') = ''SYN flood''"
  using determine_attack_type_tie_break [of ex_tie "''203.0.113.9''"]
  by (simp add: ex_tie_def init_def syn_count_def http_count_def icmp_count_def dict_get_def
      spec_refined_type_def)

subsection \<open>Raising an alert\<close>

lemma already_alerted_within:
  "a \<in> set h \<Longrightarrow> src_ip a = ip \<Longrightarrow> \<forall>k. clk k - timestamp a < real_of_int (tw * 2) \<Longrightarrow>
   fst (already_alerted clk k tw ip h)"
  by (induction clk k tw ip h rule: already_alerted.induct) auto

lemma already_alerted_elapsed:
  "\<forall>a \<in> set h. src_ip a = ip \<longrightarrow> (\<forall>k. real_of_int (tw * 2) \<le> clk k - timestamp a) \<Longrightarrow>
   \<not> fst (already_alerted clk k tw ip h)"
  by (induction clk k tw ip h rule: already_alerted.induct) (auto simp: not_less, meson not_less)

lemma already_alerted_other_sources:
  "\<forall>a \<in> set h. src_ip a \<noteq> ip \<Longrightarrow> already_alerted clk k tw ip h = (False, k)"
  by (induction clk k tw ip h rule: already_alerted.induct) auto

lemma trigger_alert_suppressed:
  "fst (already_alerted (time_time e) 0 (time_window s) ip (alert_history s)) \<Longrightarrow>
   trigger_alert e s ip cnt atype = s"
  by (cases "already_alerted (time_time e) 0 (time_window s) ip (alert_history s)")
    (simp add: trigger_alert_def)

lemma last_deque_append: "0 < n \<Longrightarrow> last (deque_append n dq x) = x"
  by (cases dq) (auto simp: deque_append_def Let_def)

lemma length_deque_append: "length dq \<le> n \<Longrightarrow> length (deque_append n dq x) \<le> n"
  by (auto simp: deque_append_def Let_def)

lemma deque_append_eq:
  "length dq \<le> n \<Longrightarrow> 0 < n \<Longrightarrow>
   deque_append n dq x = (if length dq < n then dq else tl dq) @ [x]"
  by (cases dq) (auto simp: deque_append_def Let_def)

lemma block_ip_frame:
  "alert_history (block_ip e s ip) = alert_history s"
  "packet_timestamps (block_ip e s ip) = packet_timestamps s"
  "syn_flood_tracking (block_ip e s ip) = syn_flood_tracking s"
  "http_flood_tracking (block_ip e s ip) = http_flood_tracking s"
  "icmp_flood_tracking (block_ip e s ip) = icmp_flood_tracking s"
  "packet_counts (block_ip e s ip) = packet_counts s"
  "api_url (block_ip e s ip) = api_url s"
  "time_window (block_ip e s ip) = time_window s"
  "threshold (block_ip e s ip) = threshold s"
  "block_ips (block_ip e s ip) = block_ips s"
  by (simp_all add: block_ip_def Let_def split: cmd_result.splits)

lemma trigger_alert_fired:
  assumes "\<not> fst (already_alerted (time_time e) 0 (time_window s) ip (alert_history s))"
  shows "alert_history (trigger_alert e s ip cnt atype) =
           deque_append 100 (alert_history s)
             \<lparr>timestamp = time_time e (snd (already_alerted (time_time e) 0 (time_window s) ip
                 (alert_history s))),
              src_ip = ip, packet_count = cnt, attack_type = atype\<rparr>"
    and "packet_timestamps (trigger_alert e s ip cnt atype) = packet_timestamps s"
    and "packet_counts (trigger_alert e s ip cnt atype) = packet_counts s"
    and "syn_flood_tracking (trigger_alert e s ip cnt atype) =
           AList.update ip 0 (syn_flood_tracking s)"
    and "http_flood_tracking (trigger_alert e s ip cnt atype) =
           AList.update ip 0 (http_flood_tracking s)"
    and "icmp_flood_tracking (trigger_alert e s ip cnt atype) =
           AList.update ip 0 (icmp_flood_tracking s)"
    and "time_window (trigger_alert e s ip cnt atype) = time_window s"
  using assms
  by (cases "already_alerted (time_time e) 0 (time_window s) ip (alert_history s)";
      simp add: trigger_alert_def Let_def block_ip_frame report_to_api_def api_enabled_def)+

lemma trigger_alert_raised:
  assumes "\<not> fst (already_alerted (time_time e) 0 (time_window s) ip (alert_history s))"
  shows "alert_raised s (trigger_alert e s ip cnt atype) ip cnt atype"
  by (simp add: alert_raised_def trigger_alert_fired(1)[OF assms] last_deque_append)

lemma trigger_alert_history:
  "alert_history (trigger_alert e s ip cnt atype) =
     (if fst (already_alerted (time_time e) 0 (time_window s) ip (alert_history s))
      then alert_history s
      else deque_append 100 (alert_history s)
             \<lparr>timestamp = time_time e (snd (already_alerted (time_time e) 0 (time_window s) ip
                 (alert_history s))),
              src_ip = ip, packet_count = cnt, attack_type = atype\<rparr>)"
  by (simp add: trigger_alert_suppressed trigger_alert_fired)

subsection \<open>Evaluating the thresholds\<close>

lemma clean_frame:
  "alert_history (clean_old_timestamps s ip now) = alert_history s"
  "time_window (clean_old_timestamps s ip now) = time_window s"
  "threshold (clean_old_timestamps s ip now) = threshold s"
  "effects (clean_old_timestamps s ip now) = effects s"
  "blocked_ips (clean_old_timestamps s ip now) = blocked_ips s"
  "packet_counts (clean_old_timestamps s ip now) = packet_counts s"
  "syn_flood_tracking (clean_old_timestamps s ip now) = syn_flood_tracking s"
  "http_flood_tracking (clean_old_timestamps s ip now) = http_flood_tracking s"
  "icmp_flood_tracking (clean_old_timestamps s ip now) = icmp_flood_tracking s"
  by (simp_all add: clean_old_timestamps_def split: option.splits)

lemma determine_frame:
  "alert_history (snd (determine_attack_type s ip)) = alert_history s"
  "time_window (snd (determine_attack_type s ip)) = time_window s"
  "threshold (snd (determine_attack_type s ip)) = threshold s"
  "effects (snd (determine_attack_type s ip)) = effects s"
  "blocked_ips (snd (determine_attack_type s ip)) = blocked_ips s"
  "packet_counts (snd (determine_attack_type s ip)) = packet_counts s"
  "packet_timestamps (snd (determine_attack_type s ip)) = packet_timestamps s"
  "syn_flood_tracking (snd (determine_attack_type s ip)) =
     snd (dd_getitem 0 (syn_flood_tracking s) ip)"
  "http_flood_tracking (snd (determine_attack_type s ip)) =
     snd (dd_getitem 0 (http_flood_tracking s) ip)"
  "icmp_flood_tracking (snd (determine_attack_type s ip)) =
     snd (dd_getitem 0 (icmp_flood_tracking s) ip)"
  by (simp_all add: determine_attack_type_def Let_def split_beta)

text \<open>The history after \<^verbatim>\<open>_check_thresholds\<close> is the history after the call of
  \<^verbatim>\<open>_trigger_alert\<close> that the first matching branch makes.\<close>

lemma check_thresholds_history:
  "alert_history (check_thresholds e s ip now) =
     (if threshold s \<le> int (length (window_of (clean_old_timestamps s ip now) ip))
      then alert_history (trigger_alert e s ip
             (int (length (window_of (clean_old_timestamps s ip now) ip)))
             (spec_refined_type (threshold s) (syn_count s ip) (http_count s ip)
                (icmp_count s ip)))
      else if threshold s div 2 \<le> syn_count s ip
      then alert_history (trigger_alert e s ip (syn_count s ip) ''SYN flood'')
      else if threshold s div 3 \<le> http_count s ip
      then alert_history (trigger_alert e s ip (http_count s ip) ''HTTP flood'')
      else if threshold s div 4 \<le> icmp_count s ip
      then alert_history (trigger_alert e s ip (icmp_count s ip) ''ICMP flood'')
      else alert_history s)"
  by (simp add: check_thresholds_def Let_def split_beta trigger_alert_history clean_frame
      determine_frame fst_dd_getitem determine_attack_type_label window_of_def syn_count_def
      http_count_def icmp_count_def dict_get_snd_dd_getitem)

lemma check_thresholds_quiet:
  assumes "int (length (window_of (clean_old_timestamps s ip now) ip)) < threshold s"
      and "syn_count s ip < threshold s div 2"
      and "http_count s ip < threshold s div 3"
      and "icmp_count s ip < threshold s div 4"
  shows "alert_history (check_thresholds e s ip now) = alert_history s"
    and "effects (check_thresholds e s ip now) = effects s"
    and "blocked_ips (check_thresholds e s ip now) = blocked_ips s"
  using assms
  by (simp_all add: check_thresholds_def Let_def split_beta clean_frame
      fst_dd_getitem window_of_def syn_count_def
      http_count_def icmp_count_def dict_get_snd_dd_getitem)

lemma ex_counts_obs:
  "syn_count (ex_counts thr w syn http icmp) ''203.0.113.9'' = syn"
  "http_count (ex_counts thr w syn http icmp) ''203.0.113.9'' = http"
  "icmp_count (ex_counts thr w syn http icmp) ''203.0.113.9'' = icmp"
  "window_of (ex_counts thr w syn http icmp) ''203.0.113.9'' = w"
  "threshold (ex_counts thr w syn http icmp) = thr"
  "time_window (ex_counts thr w syn http icmp) = 10"
  "alert_history (ex_counts thr w syn http icmp) = []"
  "effects (ex_counts thr w syn http icmp) = []"
  by (simp_all add: ex_counts_def init_def syn_count_def http_count_def icmp_count_def
      window_of_def dict_get_def)

text \<open>
  Claim C1. \<^verbatim>\<open>_check_thresholds\<close> tests four conditions on the pruned record in a fixed
  order and the first that holds decides. For a source that no alert in the history
  suppresses, with \<open>n\<close> the length of the pruned window: when \<open>n \<ge> threshold\<close> the general
  path is taken (the alert has evidence \<open>n\<close> and the label of \<^verbatim>\<open>_determine_attack_type\<close>);
  otherwise when \<open>syn \<ge> threshold // 2\<close> the alert is a SYN flood with evidence \<open>syn\<close>;
  otherwise when \<open>http \<ge> threshold // 3\<close> it is an HTTP flood with evidence \<open>http\<close>;
  otherwise when \<open>icmp \<ge> threshold // 4\<close> it is an ICMP flood with evidence \<open>icmp\<close>;
  otherwise no alert is raised and no effect happens.
\<close>

theorem check_thresholds_priority:
  assumes "\<not> fst (already_alerted (time_time e) 0 (time_window s) ip (alert_history s))"
      and "n = int (length (window_of (clean_old_timestamps s ip now) ip))"
      and "s' = check_thresholds e s ip now"
  shows "(threshold s \<le> n \<longrightarrow> alert_raised s s' ip n (fst (determine_attack_type s ip)))
    \<and> (n < threshold s \<and> threshold s div 2 \<le> syn_count s ip \<longrightarrow>
         alert_raised s s' ip (syn_count s ip) ''SYN flood'')
    \<and> (n < threshold s \<and> syn_count s ip < threshold s div 2 \<and>
       threshold s div 3 \<le> http_count s ip \<longrightarrow>
         alert_raised s s' ip (http_count s ip) ''HTTP flood'')
    \<and> (n < threshold s \<and> syn_count s ip < threshold s div 2 \<and>
       http_count s ip < threshold s div 3 \<and> threshold s div 4 \<le> icmp_count s ip \<longrightarrow>
         alert_raised s s' ip (icmp_count s ip) ''ICMP flood'')
    \<and> (n < threshold s \<and> syn_count s ip < threshold s div 2 \<and>
       http_count s ip < threshold s div 3 \<and> icmp_count s ip < threshold s div 4 \<longrightarrow>
         alert_history s' = alert_history s \<and> effects s' = effects s)"
proof -
  let ?c = "check_thresholds e s ip now"
  have raised: "alert_raised s ?c ip cnt atype"
    if "alert_history ?c = alert_history (trigger_alert e s ip cnt atype)" for cnt atype
    using trigger_alert_raised [OF assms(1), of cnt atype] that by (simp add: alert_raised_def)
  have general: "threshold s \<le> n \<longrightarrow> alert_raised s ?c ip n (fst (determine_attack_type s ip))"
    by (auto intro!: raised simp: check_thresholds_history assms(2) determine_attack_type_label)
  have syn: "n < threshold s \<and> threshold s div 2 \<le> syn_count s ip \<longrightarrow>
      alert_raised s ?c ip (syn_count s ip) ''SYN flood''"
    by (auto intro!: raised simp: check_thresholds_history assms(2))
  have http: "n < threshold s \<and> syn_count s ip < threshold s div 2 \<and>
      threshold s div 3 \<le> http_count s ip \<longrightarrow>
      alert_raised s ?c ip (http_count s ip) ''HTTP flood''"
    by (auto intro!: raised simp: check_thresholds_history assms(2))
  have icmp: "n < threshold s \<and> syn_count s ip < threshold s div 2 \<and>
      http_count s ip < threshold s div 3 \<and> threshold s div 4 \<le> icmp_count s ip \<longrightarrow>
      alert_raised s ?c ip (icmp_count s ip) ''ICMP flood''"
    by (auto intro!: raised simp: check_thresholds_history assms(2))
  have quiet: "n < threshold s \<and> syn_count s ip < threshold s div 2 \<and>
      http_count s ip < threshold s div 3 \<and> icmp_count s ip < threshold s div 4 \<longrightarrow>
      alert_history ?c = alert_history s \<and> effects ?c = effects s"
    using check_thresholds_quiet [of s ip now e] by (simp add: assms(2))
  show ?thesis
    unfolding assms(3) using general syn http icmp quiet by blast
qed

theorem check_thresholds_priority_witness:
  "alert_raised (ex_counts 10 [1, 2, 3] 5 4 3)
     (check_thresholds (ex_env 3) (ex_counts 10 [1, 2, 3] 5 4 3) ''203.0.113.9'' 3)
     ''203.0.113.9'' 5 ''SYN flood''
   \<and> alert_raised (ex_counts 10 [1, 2, 3] 4 4 3)
     (check_thresholds (ex_env 3) (ex_counts 10 [1, 2, 3] 4 4 3) ''203.0.113.9'' 3)
     ''203.0.113.9'' 4 ''HTTP flood''
   \<and> alert_raised (ex_counts 10 [1, 2, 3] 4 2 3)
     (check_thresholds (ex_env 3) (ex_counts 10 [1, 2, 3] 4 2 3) ''203.0.113.9'' 3)
     ''203.0.113.9'' 3 ''ICMP flood''
   \<and> alert_history
       (check_thresholds (ex_env 3) (ex_counts 10 [1, 2, 3] 4 2 1) ''203.0.113.9'' 3) = []
   \<and> alert_raised (ex_counts 3 [1, 2, 3] 0 0 0)
     (check_thresholds (ex_env 3) (ex_counts 3 [1, 2, 3] 0 0 0) ''203.0.113.9'' 3)
     ''203.0.113.9'' 3 ''General DoS''"
  using
    check_thresholds_priority [of "ex_env 3" "ex_counts 10 [1, 2, 3] 5 4 3" "''203.0.113.9''" 3 3]
    check_thresholds_priority [of "ex_env 3" "ex_counts 10 [1, 2, 3] 4 4 3" "''203.0.113.9''" 3 3]
    check_thresholds_priority [of "ex_env 3" "ex_counts 10 [1, 2, 3] 4 2 3" "''203.0.113.9''" 3 3]
    check_thresholds_priority [of "ex_env 3" "ex_counts 10 [1, 2, 3] 4 2 1" "''203.0.113.9''" 3 3]
    check_thresholds_priority [of "ex_env 3" "ex_counts 3 [1, 2, 3] 0 0 0" "''203.0.113.9''" 3 3]
  by (simp add: ex_counts_obs window_of_clean determine_attack_type_label spec_refined_type_def)

text \<open>
  Claim C3, as stated: on the general path, when the largest counter exceeds
  \<^verbatim>\<open>threshold // 5\<close> the alert's evidence is that counter. It fails for a threshold of 3, a
  window of three timestamps and a SYN counter of 2: the alert is a SYN flood, and its
  evidence is 3, the length of the window (\<^verbatim>\<open>_check_thresholds\<close> passes
  \<^verbatim>\<open>recent_packets\<close> on this path whatever the label).
\<close>

theorem general_path_evidence_is_window_length:
  "threshold (ex_counts 3 [1, 2, 3] 2 0 0)
     \<le> int (length (window_of
           (clean_old_timestamps (ex_counts 3 [1, 2, 3] 2 0 0) ''203.0.113.9'' 3)
           ''203.0.113.9''))
   \<and> max (syn_count (ex_counts 3 [1, 2, 3] 2 0 0) ''203.0.113.9'')
        (max (http_count (ex_counts 3 [1, 2, 3] 2 0 0) ''203.0.113.9'')
           (icmp_count (ex_counts 3 [1, 2, 3] 2 0 0) ''203.0.113.9''))
      > threshold (ex_counts 3 [1, 2, 3] 2 0 0) div 5
   \<and> syn_count (ex_counts 3 [1, 2, 3] 2 0 0) ''203.0.113.9'' = 2
   \<and> attack_type (last (alert_history
        (check_thresholds (ex_env 3) (ex_counts 3 [1, 2, 3] 2 0 0) ''203.0.113.9'' 3)))
      = ''SYN flood''
   \<and> packet_count (last (alert_history
        (check_thresholds (ex_env 3) (ex_counts 3 [1, 2, 3] 2 0 0) ''203.0.113.9'' 3)))
      = 3"
  by (simp add: ex_counts_obs window_of_clean check_thresholds_history trigger_alert_history
      spec_refined_type_def last_deque_append)

text \<open>
  Claim C3, amended. On the general path (\<open>n \<ge> threshold\<close>, with \<open>n\<close> the length of the
  pruned window) the evidence of the alert is always \<open>n\<close>. Its label is that of the
  signature with the maximal counter \<open>m\<close> when \<open>m\<close> strictly exceeds \<^verbatim>\<open>threshold // 5\<close>,
  and the general label otherwise.
\<close>

theorem general_path_alert:
  assumes "\<not> fst (already_alerted (time_time e) 0 (time_window s) ip (alert_history s))"
      and "n = int (length (window_of (clean_old_timestamps s ip now) ip))"
      and "threshold s \<le> n"
      and "m = max (syn_count s ip) (max (http_count s ip) (icmp_count s ip))"
      and "s' = check_thresholds e s ip now"
  shows "(m > threshold s div 5 \<and> syn_count s ip = m \<longrightarrow> alert_raised s s' ip n ''SYN flood'')
    \<and> (m > threshold s div 5 \<and> syn_count s ip \<noteq> m \<and> http_count s ip = m \<longrightarrow>
         alert_raised s s' ip n ''HTTP flood'')
    \<and> (m > threshold s div 5 \<and> syn_count s ip \<noteq> m \<and> http_count s ip \<noteq> m \<longrightarrow>
         alert_raised s s' ip n ''ICMP flood'')
    \<and> (m \<le> threshold s div 5 \<longrightarrow> alert_raised s s' ip n ''General DoS'')"
proof -
  have "alert_history s' =
      alert_history (trigger_alert e s ip n
        (spec_refined_type (threshold s) (syn_count s ip) (http_count s ip) (icmp_count s ip)))"
    using assms(2,3,5) by (simp add: check_thresholds_history)
  then have "alert_raised s s' ip n
      (spec_refined_type (threshold s) (syn_count s ip) (http_count s ip) (icmp_count s ip))"
    using trigger_alert_raised [OF assms(1)] by (simp add: alert_raised_def)
  then show ?thesis
    unfolding assms(4) spec_refined_type_def Let_def
    by (simp only: split: if_splits; simp add: not_less)
qed

theorem general_path_alert_witness:
  "alert_raised (ex_counts 3 [1, 2, 3] 2 0 0)
     (check_thresholds (ex_env 3) (ex_counts 3 [1, 2, 3] 2 0 0) ''203.0.113.9'' 3)
     ''203.0.113.9'' 3 ''SYN flood''
   \<and> alert_raised (ex_counts 3 [1, 2, 3] 1 2 2)
     (check_thresholds (ex_env 3) (ex_counts 3 [1, 2, 3] 1 2 2) ''203.0.113.9'' 3)
     ''203.0.113.9'' 3 ''HTTP flood''
   \<and> alert_raised (ex_counts 3 [1, 2, 3] 1 0 2)
     (check_thresholds (ex_env 3) (ex_counts 3 [1, 2, 3] 1 0 2) ''203.0.113.9'' 3)
     ''203.0.113.9'' 3 ''ICMP flood''
   \<and> alert_raised (ex_counts 3 [1, 2, 3] 0 0 0)
     (check_thresholds (ex_env 3) (ex_counts 3 [1, 2, 3] 0 0 0) ''203.0.113.9'' 3)
     ''203.0.113.9'' 3 ''General DoS''"
  using
    general_path_alert [of "ex_env 3" "ex_counts 3 [1, 2, 3] 2 0 0" "''203.0.113.9''" 3 3 2]
    general_path_alert [of "ex_env 3" "ex_counts 3 [1, 2, 3] 1 2 2" "''203.0.113.9''" 3 3 2]
    general_path_alert [of "ex_env 3" "ex_counts 3 [1, 2, 3] 1 0 2" "''203.0.113.9''" 3 3 2]
    general_path_alert [of "ex_env 3" "ex_counts 3 [1, 2, 3] 0 0 0" "''203.0.113.9''" 3 3 0]
  by (simp add: ex_counts_obs window_of_clean)

subsection \<open>Suppressing and recording alerts\<close>

lemma ex_alerted_obs:
  "alert_history ex_alerted =
     [\<lparr>timestamp = 100, src_ip = ''203.0.113.9'', packet_count = 5,
       attack_type = ''SYN flood''\<rparr>]"
  "time_window ex_alerted = 10"
  by (simp_all add: ex_alerted_def ex_counts_obs)

lemma ex_full_obs:
  "alert_history ex_full =
     replicate 100 \<lparr>timestamp = 100, src_ip = ''198.51.100.7'', packet_count = 12,
       attack_type = ''General DoS''\<rparr>"
  "time_window ex_full = 10"
  "syn_count ex_full ''203.0.113.9'' = 5"
  "http_count ex_full ''203.0.113.9'' = 4"
  "icmp_count ex_full ''203.0.113.9'' = 3"
  "window_of ex_full ''203.0.113.9'' = [101, 102, 103]"
  by (simp_all add: ex_full_def ex_counts_def init_def syn_count_def http_count_def
      icmp_count_def window_of_def dict_get_def)

text \<open>
  Claim C6. When the history holds an alert of the source and every reading of the clock
  during the call is strictly less than \<^verbatim>\<open>time_window * 2\<close> after that alert's time,
  \<^verbatim>\<open>_trigger_alert\<close> returns the detector as it was: no alert is appended, no counter is
  reset, and no command or report is issued. When every alert of the source in the
  history is \<^verbatim>\<open>time_window * 2\<close> or more in the past, the call raises a new alert.
\<close>

theorem trigger_alert_dedup:
  "(a \<in> set (alert_history s) \<and> src_ip a = ip \<and>
      (\<forall>k. time_time e k - timestamp a < real_of_int (time_window s * 2)) \<longrightarrow>
        trigger_alert e s ip cnt atype = s)
   \<and> ((\<forall>a \<in> set (alert_history s). src_ip a = ip \<longrightarrow>
        (\<forall>k. real_of_int (time_window s * 2) \<le> time_time e k - timestamp a)) \<longrightarrow>
        alert_raised s (trigger_alert e s ip cnt atype) ip cnt atype)"
  using already_alerted_within [of a "alert_history s" ip "time_time e" "time_window s" 0]
    already_alerted_elapsed [of "alert_history s" ip "time_window s" "time_time e" 0]
  by (auto simp: trigger_alert_suppressed trigger_alert_raised)

theorem trigger_alert_dedup_witness:
  "trigger_alert (ex_env 119) ex_alerted ''203.0.113.9'' 7 ''SYN flood'' = ex_alerted
   \<and> alert_raised ex_alerted
       (trigger_alert (ex_env 120) ex_alerted ''203.0.113.9'' 7 ''SYN flood'')
       ''203.0.113.9'' 7 ''SYN flood''"
  using
    trigger_alert_dedup [where s = ex_alerted and e = "ex_env 119" and ip = "''203.0.113.9''"
      and a = "\<lparr>timestamp = 100, src_ip = ''203.0.113.9'', packet_count = 5,
        attack_type = ''SYN flood''\<rparr>" and cnt = 7 and atype = "''SYN flood''"]
    trigger_alert_dedup [where s = ex_alerted and e = "ex_env 120" and ip = "''203.0.113.9''"
      and cnt = 7 and atype = "''SYN flood''"]
  by (simp add: ex_alerted_obs ex_env_def)

text \<open>
  Claim C7. When \<^verbatim>\<open>_trigger_alert\<close> is not suppressed, the alert is appended to the
  history; a history of at most 100 alerts stays at most 100 long, its oldest alert
  being dropped when it was full; the three counters of the source are zero afterwards;
  and the timestamps of every source are as before.
\<close>

theorem trigger_alert_records:
  assumes "\<not> fst (already_alerted (time_time e) 0 (time_window s) ip (alert_history s))"
      and "length (alert_history s) \<le> 100"
      and "s' = trigger_alert e s ip cnt atype"
  shows "alert_raised s s' ip cnt atype
    \<and> butlast (alert_history s') =
        (if length (alert_history s) < 100 then alert_history s else tl (alert_history s))
    \<and> length (alert_history s') \<le> 100
    \<and> syn_count s' ip = 0 \<and> http_count s' ip = 0 \<and> icmp_count s' ip = 0
    \<and> packet_timestamps s' = packet_timestamps s"
  using assms trigger_alert_raised [OF assms(1), of cnt atype]
  by (simp add: trigger_alert_fired deque_append_eq syn_count_def http_count_def icmp_count_def
      dict_get_update)

theorem trigger_alert_records_witness:
  "length (alert_history ex_full) = 100
   \<and> syn_count ex_full ''203.0.113.9'' = 5
   \<and> alert_raised ex_full (trigger_alert (ex_env 104) ex_full ''203.0.113.9'' 5 ''SYN flood'')
       ''203.0.113.9'' 5 ''SYN flood''
   \<and> butlast (alert_history (trigger_alert (ex_env 104) ex_full ''203.0.113.9'' 5 ''SYN flood''))
       = tl (alert_history ex_full)
   \<and> length (alert_history (trigger_alert (ex_env 104) ex_full ''203.0.113.9'' 5 ''SYN flood''))
       \<le> 100
   \<and> syn_count (trigger_alert (ex_env 104) ex_full ''203.0.113.9'' 5 ''SYN flood'')
       ''203.0.113.9'' = 0
   \<and> packet_timestamps (trigger_alert (ex_env 104) ex_full ''203.0.113.9'' 5 ''SYN flood'')
       = packet_timestamps ex_full"
  using trigger_alert_records [of "ex_env 104" ex_full "''203.0.113.9''" _ 5 "''SYN flood''"]
  by (simp add: ex_full_obs already_alerted_other_sources)

subsection \<open>Counters belong to tracked sources\<close>

text \<open>Processing a packet records a timestamp for its source before it touches a counter
  of that source, and touches no other source: when every counted source is tracked
  before a packet is processed, this holds afterwards too. It holds for the detector
  that \<^verbatim>\<open>__init__\<close> builds.\<close>

lemma map_of_dd_getitem_other:
  "k' \<noteq> k \<Longrightarrow> map_of (snd (dd_getitem dflt d k)) k' = map_of d k'"
  by (simp add: map_of_snd_dd_getitem)

lemma map_of_dd_getitem_same: "map_of (snd (dd_getitem dflt d k)) k \<noteq> None"
  by (simp add: map_of_snd_dd_getitem)

lemma map_of_dd_incr_other: "k' \<noteq> k \<Longrightarrow> map_of (dd_incr d k) k' = map_of d k'"
  by (simp add: dd_incr_def split_beta update_conv' map_of_dd_getitem_other)

lemma tracked_clean: "tracked (clean_old_timestamps s ip now) ip' = tracked s ip'"
  by (cases "map_of (packet_timestamps s) ip")
    (simp_all add: tracked_def clean_old_timestamps_def update_conv')

lemma trigger_alert_timestamps:
  "packet_timestamps (trigger_alert e s ip cnt atype) = packet_timestamps s"
  by (cases "fst (already_alerted (time_time e) 0 (time_window s) ip (alert_history s))")
    (simp_all add: trigger_alert_suppressed trigger_alert_fired)

lemma trigger_alert_counted_other:
  assumes "ip' \<noteq> ip"
  shows "counted (trigger_alert e s ip cnt atype) ip' = counted s ip'"
proof (cases "fst (already_alerted (time_time e) 0 (time_window s) ip (alert_history s))")
  case True
  then show ?thesis by (simp add: trigger_alert_suppressed)
next
  case False
  then show ?thesis
    using assms by (simp add: counted_def trigger_alert_fired update_conv')
qed

lemma grows_at_trigger:
  assumes "grows_at ip s sX"
  shows "grows_at ip s (trigger_alert e sX ip cnt atype)"
proof -
  have "tracked (trigger_alert e sX ip cnt atype) ip' = tracked sX ip'" for ip'
    by (simp add: tracked_def trigger_alert_timestamps)
  moreover have "counted (trigger_alert e sX ip cnt atype) ip' \<Longrightarrow> counted sX ip' \<or> ip' = ip" for ip'
    using trigger_alert_counted_other [of ip' ip e sX cnt atype] by blast
  ultimately show ?thesis
    using assms unfolding grows_at_def by blast
qed

lemma grows_at_pre:
  assumes ts: "packet_timestamps sX =
        snd (dd_getitem [] (packet_timestamps (clean_old_timestamps s ip now)) ip)"
      and pc: "packet_counts sX = packet_counts s"
      and syn: "syn_flood_tracking sX = syn_flood_tracking s \<or>
           syn_flood_tracking sX = snd (dd_getitem 0 (syn_flood_tracking s) ip)"
      and http: "http_flood_tracking sX = http_flood_tracking s \<or>
           http_flood_tracking sX = snd (dd_getitem 0 (http_flood_tracking s) ip)"
      and icmp: "icmp_flood_tracking sX = icmp_flood_tracking s \<or>
           icmp_flood_tracking sX = snd (dd_getitem 0 (icmp_flood_tracking s) ip)"
  shows "grows_at ip s sX"
proof -
  have t: "tracked sX ip' \<longleftrightarrow> tracked s ip' \<or> ip' = ip" for ip'
  proof (cases "ip' = ip")
    case True
    then show ?thesis by (simp add: tracked_def ts map_of_dd_getitem_same)
  next
    case False
    then have "map_of (packet_timestamps sX) ip' =
        map_of (packet_timestamps (clean_old_timestamps s ip now)) ip'"
      by (simp add: ts map_of_dd_getitem_other)
    then show ?thesis
      using False tracked_clean [of s ip now ip'] by (simp add: tracked_def)
  qed
  have c: "counted sX ip' = counted s ip'" if "ip' \<noteq> ip" for ip'
  proof -
    have "map_of (syn_flood_tracking sX) ip' = map_of (syn_flood_tracking s) ip'"
      using syn that by (auto simp: map_of_dd_getitem_other)
    moreover have "map_of (http_flood_tracking sX) ip' = map_of (http_flood_tracking s) ip'"
      using http that by (auto simp: map_of_dd_getitem_other)
    moreover have "map_of (icmp_flood_tracking sX) ip' = map_of (icmp_flood_tracking s) ip'"
      using icmp that by (auto simp: map_of_dd_getitem_other)
    ultimately show ?thesis
      by (simp add: counted_def pc)
  qed
  show ?thesis
    unfolding grows_at_def using t c by blast
qed

lemma check_thresholds_grows: "grows_at ip s (check_thresholds e s ip now)"
proof -
  define s1 where "s1 = (clean_old_timestamps s ip now)
      \<lparr>packet_timestamps :=
         snd (dd_getitem [] (packet_timestamps (clean_old_timestamps s ip now)) ip)\<rparr>"
  define sg where "sg = snd (determine_attack_type s1 ip)"
  define s2 where "s2 = s1\<lparr>syn_flood_tracking := snd (dd_getitem 0 (syn_flood_tracking s1) ip)\<rparr>"
  define s3 where "s3 = s2\<lparr>http_flood_tracking := snd (dd_getitem 0 (http_flood_tracking s2) ip)\<rparr>"
  define s4 where "s4 = s3\<lparr>icmp_flood_tracking := snd (dd_getitem 0 (icmp_flood_tracking s3) ip)\<rparr>"
  have g1: "grows_at ip s s1"
    by (rule grows_at_pre [where now = now]) (simp_all add: s1_def clean_frame)
  have gg: "grows_at ip s sg"
    by (rule grows_at_pre [where now = now]) (simp_all add: sg_def s1_def determine_frame clean_frame)
  have g2: "grows_at ip s s2"
    by (rule grows_at_pre [where now = now]) (simp_all add: s2_def s1_def clean_frame)
  have g3: "grows_at ip s s3"
    by (rule grows_at_pre [where now = now]) (simp_all add: s3_def s2_def s1_def clean_frame)
  have g4: "grows_at ip s s4"
    by (rule grows_at_pre [where now = now]) (simp_all add: s4_def s3_def s2_def s1_def clean_frame)
  have "check_thresholds e s ip now \<in>
      {s4} \<union> {trigger_alert e sX ip cnt atype | sX cnt atype. sX \<in> {sg, s2, s3, s4}}"
    unfolding check_thresholds_def Let_def split_beta
      s1_def [symmetric] sg_def [symmetric] s2_def [symmetric] s3_def [symmetric]
      s4_def [symmetric]
    by auto
  then show ?thesis
    using g4 gg g2 g3 grows_at_trigger by auto
qed

lemma signatures_domains:
  "tracked (check_attack_signatures s p ip) ip' = tracked s ip'"
  "ip' \<noteq> ip \<Longrightarrow> counted (check_attack_signatures s p ip) ip' = counted s ip'"
  by (simp_all add: check_attack_signatures_def Let_def tracked_def counted_def
      map_of_dd_incr_other)

lemma process_packet_consistent:
  assumes "\<forall>ip. counted s ip \<longrightarrow> tracked s ip"
  shows "\<forall>ip. counted (process_packet e pp priv s p) ip \<longrightarrow>
      tracked (process_packet e pp priv s p) ip"
proof -
  define src where "src = ip_src p"
  define s2 where "s2 = s\<lparr>packet_timestamps := AList.update src
      (fst (dd_getitem [] (packet_timestamps s) src) @ [time_time e 0])
      (snd (dd_getitem [] (packet_timestamps s) src)),
      packet_counts := dd_incr (packet_counts s) src\<rparr>"
  define s3 where "s3 = check_attack_signatures s2 p src"
  have t2: "tracked s2 ip \<longleftrightarrow> tracked s ip \<or> ip = src" for ip
    by (cases "ip = src")
      (simp_all add: s2_def tracked_def update_conv' map_of_dd_getitem_other)
  have c2: "counted s2 ip = counted s ip" if "ip \<noteq> src" for ip
    using that by (simp add: s2_def counted_def map_of_dd_incr_other)
  have t3: "tracked s3 ip \<longleftrightarrow> tracked s ip \<or> ip = src" for ip
    by (simp add: s3_def signatures_domains(1) t2)
  have c3: "counted s3 ip = counted s ip" if "ip \<noteq> src" for ip
    using that by (simp add: s3_def signatures_domains(2) c2)
  have inv3: "\<forall>ip. counted s3 ip \<longrightarrow> tracked s3 ip"
    using assms t3 c3 by blast
  have "\<forall>ip. counted (check_thresholds e' s3 src now) ip \<longrightarrow>
      tracked (check_thresholds e' s3 src now) ip" for e' now
    using check_thresholds_grows [of src s3 e' now] inv3 unfolding grows_at_def by blast
  moreover have "process_packet e pp priv s p = s \<or>
      process_packet e pp priv s p =
        check_thresholds (e\<lparr>time_time := \<lambda>k. time_time e (Suc k)\<rparr>) s3 src (time_time e 0)"
    by (simp add: process_packet_def Let_def split_beta s3_def s2_def src_def)
  ultimately show ?thesis
    using assms by metis
qed

lemma init_consistent: "\<forall>ip. counted (init thr tw blk url) ip \<longrightarrow> tracked (init thr tw blk url) ip"
  by (simp add: init_def counted_def)

subsection \<open>The maintenance sweep\<close>

lemma step_time_window: "time_window (maintenance_step now ip s) = time_window s"
  by (simp add: maintenance_step_def Let_def split_beta clean_frame)

lemma step_timestamps:
  "map_of (packet_timestamps (maintenance_step now ip s)) ip' =
     (if ip' = ip
      then (if stale s now ip then None
            else Some [ts \<leftarrow> window_of s ip. now - ts \<le> real_of_int (time_window s)])
      else map_of (packet_timestamps s) ip')"
  by (auto simp: maintenance_step_def Let_def split_beta fst_dd_getitem stale_def
      map_of_snd_dd_getitem delete_conv' clean_old_timestamps_def update_conv' window_of_def
      dict_get_def split: option.splits)

lemma step_counters:
  "map_of (packet_counts (maintenance_step now ip s)) ip' =
     (if ip' = ip \<and> stale s now ip then None else map_of (packet_counts s) ip')"
  "map_of (syn_flood_tracking (maintenance_step now ip s)) ip' =
     (if ip' = ip \<and> stale s now ip then None else map_of (syn_flood_tracking s) ip')"
  "map_of (http_flood_tracking (maintenance_step now ip s)) ip' =
     (if ip' = ip \<and> stale s now ip then None else map_of (http_flood_tracking s) ip')"
  "map_of (icmp_flood_tracking (maintenance_step now ip s)) ip' =
     (if ip' = ip \<and> stale s now ip then None else map_of (icmp_flood_tracking s) ip')"
  by (auto simp: maintenance_step_def Let_def split_beta fst_dd_getitem stale_def
      delete_conv' clean_frame window_of_clean[unfolded window_of_def] window_of_def)

lemma step_window:
  "window_of (maintenance_step now ip s) ip' =
     (if ip' = ip then [ts \<leftarrow> window_of s ip. now - ts \<le> real_of_int (time_window s)]
      else window_of s ip')"
  using step_timestamps [of now ip s ip']
  by (auto simp: window_of_def dict_get_def stale_def split: option.splits)

lemma step_stale: "stale (maintenance_step now ip s) now ip' = stale s now ip'"
  by (simp add: stale_def step_window step_time_window)

lemma fold_time_window: "time_window (fold (maintenance_step now) ks s) = time_window s"
  by (induction ks arbitrary: s) (simp_all add: step_time_window)

lemma fold_stale: "stale (fold (maintenance_step now) ks s) now ip' = stale s now ip'"
  by (induction ks arbitrary: s) (simp_all add: step_stale)

lemma fold_timestamps:
  "map_of (packet_timestamps (fold (maintenance_step now) ks s)) ip' =
     (if ip' \<in> set ks
      then (if stale s now ip' then None
            else Some [ts \<leftarrow> window_of s ip'. now - ts \<le> real_of_int (time_window s)])
      else map_of (packet_timestamps s) ip')"
  by (induction ks arbitrary: s)
    (auto simp: step_stale step_window step_time_window step_timestamps)

lemma fold_counters:
  "map_of (packet_counts (fold (maintenance_step now) ks s)) ip' =
     (if ip' \<in> set ks \<and> stale s now ip' then None else map_of (packet_counts s) ip')"
  "map_of (syn_flood_tracking (fold (maintenance_step now) ks s)) ip' =
     (if ip' \<in> set ks \<and> stale s now ip' then None else map_of (syn_flood_tracking s) ip')"
  "map_of (http_flood_tracking (fold (maintenance_step now) ks s)) ip' =
     (if ip' \<in> set ks \<and> stale s now ip' then None else map_of (http_flood_tracking s) ip')"
  "map_of (icmp_flood_tracking (fold (maintenance_step now) ks s)) ip' =
     (if ip' \<in> set ks \<and> stale s now ip' then None else map_of (icmp_flood_tracking s) ip')"
  by (induction ks arbitrary: s; auto simp: step_stale step_counters)+

lemma tracked_keys: "ip \<in> set (map fst (packet_timestamps s)) \<longleftrightarrow> tracked s ip"
  by (simp add: tracked_def map_of_eq_None_iff)

lemma sweep_timestamps:
  "map_of (packet_timestamps (maintenance_sweep s now)) ip =
     (if tracked s ip \<and> \<not> stale s now ip
      then Some [ts \<leftarrow> window_of s ip. now - ts \<le> real_of_int (time_window s)] else None)"
  using tracked_keys [of ip s]
  by (auto simp: maintenance_sweep_def fold_timestamps tracked_def simp del: set_map)

lemma sweep_counters:
  "map_of (packet_counts (maintenance_sweep s now)) ip =
     (if tracked s ip \<and> stale s now ip then None else map_of (packet_counts s) ip)"
  "map_of (syn_flood_tracking (maintenance_sweep s now)) ip =
     (if tracked s ip \<and> stale s now ip then None else map_of (syn_flood_tracking s) ip)"
  "map_of (http_flood_tracking (maintenance_sweep s now)) ip =
     (if tracked s ip \<and> stale s now ip then None else map_of (http_flood_tracking s) ip)"
  "map_of (icmp_flood_tracking (maintenance_sweep s now)) ip =
     (if tracked s ip \<and> stale s now ip then None else map_of (icmp_flood_tracking s) ip)"
  using tracked_keys [of ip s]
  by (auto simp: maintenance_sweep_def fold_counters simp del: set_map)

lemma sweep_time_window: "time_window (maintenance_sweep s now) = time_window s"
  by (simp add: maintenance_sweep_def fold_time_window)

lemma sweep_tracked:
  "tracked (maintenance_sweep s now) ip \<longleftrightarrow> tracked s ip \<and> \<not> stale s now ip"
  by (simp add: tracked_def sweep_timestamps)

lemma sweep_counted:
  "counted (maintenance_sweep s now) ip \<longleftrightarrow> counted s ip \<and> \<not> (tracked s ip \<and> stale s now ip)"
  by (auto simp: counted_def sweep_counters)

lemma sweep_window:
  "tracked (maintenance_sweep s now) ip \<Longrightarrow>
   window_of (maintenance_sweep s now) ip =
     [ts \<leftarrow> window_of s ip. now - ts \<le> real_of_int (time_window s)]"
  by (simp add: sweep_tracked window_of_def[of "maintenance_sweep s now"] dict_get_def
      sweep_timestamps)

lemma ex_two_obs:
  "tracked ex_two ip \<longleftrightarrow> ip = ''203.0.113.9'' \<or> ip = ''198.51.100.7''"
  "counted ex_two ip \<longleftrightarrow> ip = ''203.0.113.9'' \<or> ip = ''198.51.100.7''"
  "window_of ex_two ''203.0.113.9'' = [1, 2]"
  "window_of ex_two ''198.51.100.7'' = [85, 95, 99]"
  "time_window ex_two = 10"
  by (auto simp: ex_two_def init_def tracked_def counted_def window_of_def dict_get_def)

text \<open>
  Claim C8. After a sweep at time \<open>now\<close>, every source that was tracked and whose pruned
  window is empty has no entry left in \<^verbatim>\<open>packet_timestamps\<close>, \<^verbatim>\<open>packet_counts\<close> or any of
  the three signature counters; every source still tracked has a window that is not empty
  and holds no timestamp older than \<open>now\<close> minus the window length; and when every counted
  source was tracked before the sweep (which the processing of packets ensures, as it
  records a timestamp before it touches a counter), the same holds after it, and then a
  source whose pruned window is empty is left in no dictionary at all.
\<close>

theorem maintenance_sweep_evicts:
  assumes "s' = maintenance_sweep s now"
  shows "(\<forall>ip. tracked s ip \<and> stale s now ip \<longrightarrow> \<not> tracked s' ip \<and> \<not> counted s' ip)
    \<and> (\<forall>ip. tracked s' ip \<longrightarrow>
          window_of s' ip \<noteq> [] \<and>
          (\<forall>ts \<in> set (window_of s' ip). \<not> ts < now - real_of_int (time_window s')))
    \<and> ((\<forall>ip. counted s ip \<longrightarrow> tracked s ip) \<longrightarrow>
          (\<forall>ip. counted s' ip \<longrightarrow> tracked s' ip) \<and>
          (\<forall>ip. stale s now ip \<longrightarrow> \<not> tracked s' ip \<and> \<not> counted s' ip))"
proof -
  have evicted: "\<forall>ip. tracked s ip \<and> stale s now ip \<longrightarrow> \<not> tracked s' ip \<and> \<not> counted s' ip"
    by (simp add: assms sweep_tracked sweep_counted)
  have kept: "\<forall>ip. tracked s' ip \<longrightarrow>
      window_of s' ip \<noteq> [] \<and>
      (\<forall>ts \<in> set (window_of s' ip). \<not> ts < now - real_of_int (time_window s'))"
  proof (intro allI impI)
    fix ip assume t: "tracked s' ip"
    then have "window_of s' ip = [ts \<leftarrow> window_of s ip. now - ts \<le> real_of_int (time_window s)]"
      unfolding assms by (rule sweep_window)
    moreover have "\<not> stale s now ip"
      using t by (simp add: assms sweep_tracked)
    ultimately show "window_of s' ip \<noteq> [] \<and>
        (\<forall>ts \<in> set (window_of s' ip). \<not> ts < now - real_of_int (time_window s'))"
      by (auto simp: stale_def assms sweep_time_window)
  qed
  have consistent: "(\<forall>ip. counted s ip \<longrightarrow> tracked s ip) \<longrightarrow>
      (\<forall>ip. counted s' ip \<longrightarrow> tracked s' ip) \<and>
      (\<forall>ip. stale s now ip \<longrightarrow> \<not> tracked s' ip \<and> \<not> counted s' ip)"
    by (auto simp: assms sweep_tracked sweep_counted)
  show ?thesis
    using evicted kept consistent by blast
qed

theorem maintenance_sweep_evicts_witness:
  "(\<forall>ip. counted ex_two ip = tracked ex_two ip)
   \<and> tracked ex_two ''203.0.113.9'' \<and> stale ex_two 100 ''203.0.113.9''
   \<and> \<not> tracked (maintenance_sweep ex_two 100) ''203.0.113.9''
   \<and> \<not> counted (maintenance_sweep ex_two 100) ''203.0.113.9''
   \<and> tracked (maintenance_sweep ex_two 100) ''198.51.100.7''
   \<and> counted (maintenance_sweep ex_two 100) ''198.51.100.7''
   \<and> window_of (maintenance_sweep ex_two 100) ''198.51.100.7'' = [95, 99]
   \<and> \<not> (95::real) < 100 - real_of_int (time_window (maintenance_sweep ex_two 100))"
  using maintenance_sweep_evicts [OF refl, of ex_two 100]
  by (simp add: ex_two_obs stale_def sweep_tracked sweep_counted sweep_window sweep_time_window)

subsection \<open>Shutdown\<close>

lemma unblock_ip_failed:
  "ip \<in> set (blocked_ips s) \<Longrightarrow> unblock_cmd e ip \<noteq> Returncode 0 \<Longrightarrow>
   unblock_ip e s ip = s\<lparr>effects := effects s @ [NetshDeleteRule ip]\<rparr>"
  by (auto simp: unblock_ip_def Let_def split: cmd_result.splits)

lemma unblock_loop_all_fail:
  "\<forall>ip \<in> set ips. unblock_cmd e ip \<noteq> Returncode 0 \<Longrightarrow> set ips \<subseteq> set (blocked_ips s) \<Longrightarrow>
   length (blocked_ips s) = used \<Longrightarrow>
   unblock_loop e used ips s = (s\<lparr>effects := effects s @ map NetshDeleteRule ips\<rparr>, None)"
  by (induction ips arbitrary: s) (simp_all add: unblock_ip_failed)

text \<open>When every command fails, \<^verbatim>\<open>stop\<close> tries each blocked source in turn and ends
  without an error: a failure does not keep the loop from the sources that follow.\<close>

lemma stop_when_every_unblock_fails:
  assumes "block_ips s" and "\<forall>ip \<in> set (blocked_ips s). unblock_cmd e ip \<noteq> Returncode 0"
  shows "stop e s =
           (s\<lparr>running := False, effects := effects s @ map NetshDeleteRule (blocked_ips s)\<rparr>,
            None)"
  using assms unblock_loop_all_fail [of "blocked_ips s" e "s\<lparr>running := False\<rparr>"
      "length (blocked_ips s)"]
  by (cases "blocked_ips s = []") (simp_all add: stop_def)

text \<open>
  Claim C9: \<^verbatim>\<open>stop\<close> attempts an unblock for every blocked source. The code does not: a
  successful unblock removes the source from the set that the \<^verbatim>\<open>for\<close> loop iterates, and
  the loop then raises \<^verbatim>\<open>RuntimeError\<close>. With two blocked sources and commands that
  succeed, only the first source is unblocked; no command is issued for the second, which
  stays in the blocked set, and \<^verbatim>\<open>stop\<close> ends with the error.
\<close>

theorem stop_aborts_after_first_unblock:
  "block_ips ex_blocked \<and> blocked_ips ex_blocked = [''203.0.113.9'', ''198.51.100.7'']
   \<and> snd (stop (ex_env 0) ex_blocked) = Some RuntimeError
   \<and> effects (fst (stop (ex_env 0) ex_blocked)) = [NetshDeleteRule ''203.0.113.9'']
   \<and> blocked_ips (fst (stop (ex_env 0) ex_blocked)) = [''198.51.100.7'']"
  by (simp add: ex_blocked_def init_def stop_def ex_env_def unblock_ip_def Let_def)

subsection \<open>An alert that has left the history\<close>

lemma src_ip_mk_alert: "src_ip (mk_alert cnt atype t) = snd t"
  by (simp add: mk_alert_def)

lemma set_deque_append: "set (deque_append n dq x) \<subseteq> insert x (set dq)"
  by (cases dq) (auto simp: deque_append_def Let_def)

lemma deque_append_drop:
  assumes "0 < n"
  shows "deque_append n (drop (length xs - n) xs) x =
           drop (length (xs @ [x]) - n) (xs @ [x])"
proof (cases "length xs < n")
  case True
  then show ?thesis by (simp add: deque_append_def)
next
  case False
  define d where "d = length xs - n"
  have d: "Suc d \<le> length xs" "length (xs @ [x]) - n = Suc d" "length (drop d xs) = n"
    using False assms by (auto simp: d_def)
  have "drop d xs \<noteq> []"
    using d(1) by simp
  then have "tl (drop d xs @ [x]) = drop (Suc d) xs @ [x]"
    by (simp add: drop_Suc tl_drop)
  moreover have "drop (Suc d) (xs @ [x]) = drop (Suc d) xs @ [x]"
    using d(1) by simp
  ultimately show ?thesis
    using d(2,3) by (simp add: deque_append_def d_def [symmetric])
qed

lemma trigger_alert_keeps_time_window:
  "time_window (trigger_alert e s ip cnt atype) = time_window s"
  by (cases "fst (already_alerted (time_time e) 0 (time_window s) ip (alert_history s))")
    (simp_all add: trigger_alert_suppressed trigger_alert_fired)

lemma trigger_all_time_window:
  "time_window (trigger_all ts cnt atype s) = time_window s"
  unfolding trigger_all_def
  by (induction ts arbitrary: s) (simp_all add: trigger_alert_keeps_time_window)

lemma trigger_alert_new_source:
  assumes "\<forall>a \<in> set (alert_history s). src_ip a \<noteq> ip"
  shows "alert_history (trigger_alert e s ip cnt atype) =
           deque_append 100 (alert_history s) (mk_alert cnt atype (e, ip))"
  using assms
  by (simp add: trigger_alert_history already_alerted_other_sources mk_alert_def)

lemma trigger_all_history:
  assumes "distinct (map snd ts)"
      and "\<forall>a \<in> set (alert_history s). src_ip a \<notin> snd ` set ts"
      and "length (alert_history s) \<le> 100"
  shows "alert_history (trigger_all ts cnt atype s) =
           drop (length (alert_history s @ map (mk_alert cnt atype) ts) - 100)
             (alert_history s @ map (mk_alert cnt atype) ts)"
  using assms
proof (induction ts rule: rev_induct)
  case Nil
  then show ?case by (simp add: trigger_all_def)
next
  case (snoc t ts)
  let ?L = "alert_history s @ map (mk_alert cnt atype) ts"
  let ?s1 = "trigger_all ts cnt atype s"
  have ih: "alert_history ?s1 = drop (length ?L - 100) ?L"
    using snoc by simp
  have "snd t \<notin> snd ` set ts"
    using snoc.prems(1) by simp
  moreover have "snd t \<notin> src_ip ` set (alert_history s)"
    using snoc.prems(2) by auto
  ultimately have "snd t \<notin> src_ip ` set ?L"
    by (simp add: image_Un image_image src_ip_mk_alert)
  then have "\<forall>a \<in> set ?L. src_ip a \<noteq> snd t"
    by (metis imageI)
  then have fresh: "\<forall>a \<in> set (alert_history ?s1). src_ip a \<noteq> snd t"
    unfolding ih by (meson in_set_dropD)
  have "alert_history (trigger_all (ts @ [t]) cnt atype s) =
      deque_append 100 (drop (length ?L - 100) ?L) (mk_alert cnt atype t)"
    using trigger_alert_new_source [OF fresh, of "fst t" cnt atype]
    by (simp add: trigger_all_def ih [unfolded trigger_all_def])
  then show ?case
    by (simp only: deque_append_drop [of 100, simplified]) simp
qed

lemma ex_sources_facts:
  "length ex_sources = 100" "distinct ex_sources" "''203.0.113.9'' \<notin> set ex_sources"
  by (simp_all add: ex_sources_def)

lemma ex_others_facts:
  "length ex_others = 100" "distinct (map snd ex_others)" "''203.0.113.9'' \<notin> snd ` set ex_others"
  using ex_sources_facts by (simp_all add: ex_others_def comp_def image_image)

text \<open>
  Claim C10. The scan for an earlier alert looks only at the history, which holds the last
  100 alerts. Let an alert be raised for source \<open>x\<close>, then one alert for each of a hundred
  other sources, then let \<open>x\<close> trigger again at a time strictly less than
  \<^verbatim>\<open>time_window * 2\<close> after its first alert: the history then holds exactly the hundred
  alerts of the other sources, and the second trigger raises a second alert for \<open>x\<close>.
\<close>

theorem dedup_forgets_evicted_alert:
  assumes "length ts = 100"
      and "distinct (map snd ts)"
      and "x \<notin> snd ` set ts"
      and "\<forall>a \<in> set (alert_history s0). src_ip a \<noteq> x \<and> src_ip a \<notin> snd ` set ts"
      and "length (alert_history s0) \<le> 100"
      and "s1 = trigger_alert e1 s0 x cnt atype"
      and "s2 = trigger_all ts cnt atype s1"
      and "s3 = trigger_alert e3 s2 x cnt atype"
      and "time_time e3 0 - time_time e1 0 < real_of_int (time_window s0 * 2)"
  shows "alert_raised s0 s1 x cnt atype
    \<and> alert_history s2 = map (mk_alert cnt atype) ts
    \<and> alert_raised s2 s3 x cnt atype
    \<and> timestamp (last (alert_history s3)) - timestamp (last (alert_history s1))
        < real_of_int (time_window s3 * 2)"
proof -
  have fresh0: "\<forall>a \<in> set (alert_history s0). src_ip a \<noteq> x"
    using assms(4) by blast
  have h1: "alert_history s1 = deque_append 100 (alert_history s0) (mk_alert cnt atype (e1, x))"
    unfolding assms(6) by (rule trigger_alert_new_source [OF fresh0])
  have len1: "length (alert_history s1) \<le> 100"
    unfolding h1 by (rule length_deque_append [OF assms(5)])
  have "set (alert_history s1) \<subseteq> insert (mk_alert cnt atype (e1, x)) (set (alert_history s0))"
    unfolding h1 by (rule set_deque_append)
  then have "src_ip ` set (alert_history s1) \<subseteq> insert x (src_ip ` set (alert_history s0))"
    by (auto simp: src_ip_mk_alert)
  moreover have "src_ip ` set (alert_history s0) \<inter> snd ` set ts = {}"
    using assms(4) by auto
  ultimately have "src_ip ` set (alert_history s1) \<inter> snd ` set ts = {}"
    using assms(3) by blast
  then have others1: "\<forall>a \<in> set (alert_history s1). src_ip a \<notin> snd ` set ts"
    by blast
  have h2: "alert_history s2 = map (mk_alert cnt atype) ts"
    unfolding assms(7)
    using trigger_all_history [OF assms(2) others1 len1, of cnt atype] len1 assms(1)
    by simp
  have fresh2: "\<forall>a \<in> set (alert_history s2). src_ip a \<noteq> x"
    unfolding h2 using assms(3) by (auto simp: src_ip_mk_alert)
  have h3: "alert_history s3 = deque_append 100 (alert_history s2) (mk_alert cnt atype (e3, x))"
    unfolding assms(8) by (rule trigger_alert_new_source [OF fresh2])
  have r1: "alert_raised s0 s1 x cnt atype"
    by (simp add: alert_raised_def h1 last_deque_append mk_alert_def)
  have r3: "alert_raised s2 s3 x cnt atype"
    by (simp add: alert_raised_def h3 last_deque_append mk_alert_def)
  have tw: "time_window s3 = time_window s0"
    by (simp add: assms(6,7,8) trigger_alert_keeps_time_window trigger_all_time_window)
  have "timestamp (last (alert_history s3)) - timestamp (last (alert_history s1))
      < real_of_int (time_window s3 * 2)"
    using assms(9) by (simp add: h1 h3 last_deque_append mk_alert_def tw)
  then show ?thesis
    using r1 h2 r3 by simp
qed

theorem dedup_forgets_evicted_alert_witness:
  "length ex_others = 100
   \<and> alert_raised (ex_counts 10 [101, 102, 103] 5 4 3)
       (trigger_alert (ex_env 104) (ex_counts 10 [101, 102, 103] 5 4 3) ''203.0.113.9'' 5 ''SYN flood'')
       ''203.0.113.9'' 5 ''SYN flood''
   \<and> alert_raised
       (trigger_all ex_others 5 ''SYN flood''
         (trigger_alert (ex_env 104) (ex_counts 10 [101, 102, 103] 5 4 3) ''203.0.113.9'' 5 ''SYN flood''))
       (trigger_alert (ex_env 106)
         (trigger_all ex_others 5 ''SYN flood''
           (trigger_alert (ex_env 104) (ex_counts 10 [101, 102, 103] 5 4 3) ''203.0.113.9'' 5 ''SYN flood''))
         ''203.0.113.9'' 5 ''SYN flood'')
       ''203.0.113.9'' 5 ''SYN flood''
   \<and> time_time (ex_env 106) 0 - time_time (ex_env 104) 0
       < real_of_int (time_window (ex_counts 10 [101, 102, 103] 5 4 3) * 2)"
  using dedup_forgets_evicted_alert [OF ex_others_facts(1,2,3) _ _ refl refl refl,
      where ?s0.0 = "ex_counts 10 [101, 102, 103] 5 4 3" and ?e1.0 = "ex_env 104"
        and ?e3.0 = "ex_env 106" and cnt = 5 and atype = "''SYN flood''"]
  by (simp add: ex_counts_obs ex_env_def ex_others_facts)

end
